theory Spec2Isabelle
  imports Main
begin

section \<open>The DID type of rucio (lib/rucio/common/didtype.py)\<close>

subsection \<open>Python string operations used by the class\<close>

text \<open>
  \<^verbatim>\<open>s.split(sep)\<close> for a one-character separator: the pieces between the occurrences of
  the separator, in order. The result is never empty (\<^verbatim>\<open>''.split('.') == ['']\<close>).
\<close>

fun str_split :: "char \<Rightarrow> string \<Rightarrow> string list" where
  "str_split sep [] = [[]]"
| "str_split sep (c # cs) =
     (if c = sep then [] # str_split sep cs
      else (case str_split sep cs of
              [] \<Rightarrow> [[c]]
            | p # ps \<Rightarrow> (c # p) # ps))"

text \<open>
  \<^verbatim>\<open>s.split(sep, 1)\<close>: at most one split, at the first occurrence of the separator.
  One piece (the whole string) when the separator does not occur, two otherwise.
\<close>

definition str_split_once :: "char \<Rightarrow> string \<Rightarrow> string list" where
  "str_split_once sep s =
     (if sep \<in> set s
      then [takeWhile (\<lambda>c. c \<noteq> sep) s, tl (dropWhile (\<lambda>c. c \<noteq> sep) s)]
      else [s])"

text \<open>\<^verbatim>\<open>sep.join(parts)\<close>.\<close>

fun str_join :: "string \<Rightarrow> string list \<Rightarrow> string" where
  "str_join sep [] = []"
| "str_join sep [p] = p"
| "str_join sep (p # q # ps) = p @ sep @ str_join sep (q # ps)"

text \<open>\<^verbatim>\<open>s.endswith(suf)\<close> and \<^verbatim>\<open>s.count(c)\<close> for a one-character \<^verbatim>\<open>c\<close>.\<close>

definition endswith :: "string \<Rightarrow> string \<Rightarrow> bool" where
  "endswith s suf = (length suf \<le> length s \<and> drop (length s - length suf) s = suf)"

definition str_count :: "string \<Rightarrow> char \<Rightarrow> nat" where
  "str_count s c = count_list s c"

subsection \<open>Data\<close>

text \<open>The two slots of a DID object.\<close>

record did =
  scope :: string
  name :: string

text \<open>
  The values the constructor can receive. A dictionary is modelled by its entries under
  string keys (the class only ever looks up \<^verbatim>\<open>'scope'\<close>, \<^verbatim>\<open>'name'\<close> and \<^verbatim>\<open>'did'\<close>);
  \<open>POther\<close> stands for a value of any other type (a number, \<^verbatim>\<open>None\<close>, ...).
\<close>

datatype pyval =
    PStr string
  | PTuple "pyval list"
  | PList "pyval list"
  | PDict "string \<Rightarrow> pyval option"
  | PDID did
  | POther

text \<open>
  Every \<^verbatim>\<open>raise DIDError(...)\<close> of the class, told apart by the place that raises it:
  \<^item> \<open>TooManyArguments\<close>: more than two arguments (line 80);
  \<^item> \<open>UnexpectedKeyword\<close>: a keyword other than scope or name beside a positional string (line 94);
  \<^item> \<open>InvalidPositionalType\<close>: a positional argument that is no string beside a keyword (line 96);
  \<^item> \<open>UnsupportedInputType\<close>: no dictionary, tuple, list, string or DID (line 119);
  \<^item> \<open>InvalidArity\<close>: a tuple or list whose length is not 2 (line 155);
  \<^item> \<open>AmbiguousIdentifier\<close>: a string without separator and without implicit scope (line 134);
  \<^item> \<open>InvalidFormat\<close>: a separator in scope or name after construction (line 66).

  \<open>NotStr\<close> is no \<^verbatim>\<open>DIDError\<close>: it marks a call that would store a value that is not a
  string in \<^verbatim>\<open>self.scope\<close> or \<^verbatim>\<open>self.name\<close>, against the annotations
  \<^verbatim>\<open>tuple[str, str]\<close>, \<^verbatim>\<open>list[str]\<close>, \<^verbatim>\<open>dict[str, str]\<close>. What Python does from there
  depends on the methods of that value and is not modelled.
\<close>

datatype reason =
    TooManyArguments
  | UnexpectedKeyword
  | InvalidPositionalType
  | UnsupportedInputType
  | InvalidArity
  | AmbiguousIdentifier
  | InvalidFormat

datatype error = DIDError reason | NotStr

definition as_str :: "pyval \<Rightarrow> error + string" where
  "as_str v = (case v of PStr s \<Rightarrow> Inr s | _ \<Rightarrow> Inl NotStr)"

subsection \<open>Class constants\<close>

definition SCOPE_SEPARATOR :: char where
  "SCOPE_SEPARATOR = CHR '':''"

definition IMPLICIT_SCOPE_SEPARATOR :: char where
  "IMPLICIT_SCOPE_SEPARATOR = CHR ''.''"

definition IMPLICIT_SCOPE_TO_LEN :: "string \<Rightarrow> nat option" where
  "IMPLICIT_SCOPE_TO_LEN = [''user'' \<mapsto> 2, ''group'' \<mapsto> 2]"

subsection \<open>Methods\<close>

text \<open>
  Each method that assigns to \<^verbatim>\<open>self\<close> takes the object and returns the updated one.
\<close>

definition has_scope :: "did \<Rightarrow> bool" where
  "has_scope self = (length (scope self) > 0)"

definition has_name :: "did \<Rightarrow> bool" where
  "has_name self = (length (name self) > 0)"

definition is_valid_format :: "did \<Rightarrow> bool" where
  "is_valid_format self =
     (if str_count (scope self) SCOPE_SEPARATOR \<noteq> 0 \<or> str_count (name self) SCOPE_SEPARATOR \<noteq> 0
      then False else True)"

text \<open>
  \<^verbatim>\<open>did_parts[0]\<close> cannot raise, \<^verbatim>\<open>split\<close> returning at least one piece;
  \<^verbatim>\<open>did_parts[0:n]\<close> is the first \<open>n\<close> pieces, or all of them when there are fewer.
\<close>

definition update_implicit_scope :: "did \<Rightarrow> did" where
  "update_implicit_scope self =
     (let did_parts = str_split IMPLICIT_SCOPE_SEPARATOR (name self);
          num_scope_parts = (case IMPLICIT_SCOPE_TO_LEN (hd did_parts) of
                               None \<Rightarrow> 0 | Some n \<Rightarrow> n)
      in if num_scope_parts > 0
         then self\<lparr>scope := str_join [IMPLICIT_SCOPE_SEPARATOR] (take num_scope_parts did_parts)\<rparr>
         else self)"

definition did_from_str :: "did \<Rightarrow> string \<Rightarrow> error + did" where
  "did_from_str self d =
     (let did_parts = str_split_once SCOPE_SEPARATOR d
      in if length did_parts = 1
         then (let self1 = update_implicit_scope (self\<lparr>name := d\<rparr>)
               in if \<not> has_scope self1 then Inl (DIDError AmbiguousIdentifier)
                  else Inr self1)
         else Inr (self\<lparr>scope := did_parts ! 0, name := did_parts ! 1\<rparr>))"

definition dict_get :: "(string \<Rightarrow> pyval option) \<Rightarrow> string \<Rightarrow> pyval \<Rightarrow> pyval" where
  "dict_get m k dflt = (case m k of None \<Rightarrow> dflt | Some v \<Rightarrow> v)"

definition did_from_dict :: "did \<Rightarrow> (string \<Rightarrow> pyval option) \<Rightarrow> error + did" where
  "did_from_dict self d =
     (case as_str (dict_get d ''scope'' (PStr '''')) of
        Inl e \<Rightarrow> Inl e
      | Inr sc \<Rightarrow>
          (case as_str (dict_get d ''name'' (PStr '''')) of
             Inl e \<Rightarrow> Inl e
           | Inr nm \<Rightarrow>
               (let self1 = self\<lparr>scope := sc, name := nm\<rparr>
                in if \<not> has_scope self1 then Inr (update_implicit_scope self1)
                   else Inr self1)))"

definition did_from_list_or_tuple :: "did \<Rightarrow> pyval list \<Rightarrow> error + did" where
  "did_from_list_or_tuple self d =
     (if length d \<noteq> 2 then Inl (DIDError InvalidArity)
      else (case as_str (d ! 0) of
              Inl e \<Rightarrow> Inl e
            | Inr sc \<Rightarrow>
                (case as_str (d ! 1) of
                   Inl e \<Rightarrow> Inl e
                 | Inr nm \<Rightarrow> Inr (self\<lparr>scope := sc, name := nm\<rparr>))))"

definition did_from_did_object :: "did \<Rightarrow> did \<Rightarrow> error + did" where
  "did_from_did_object self d = Inr (self\<lparr>scope := scope d, name := name d\<rparr>)"

text \<open>The dispatch on the type of the input, lines 110 to 119 of \<^verbatim>\<open>_construct_did\<close>.\<close>

definition construct_form :: "did \<Rightarrow> pyval \<Rightarrow> error + did" where
  "construct_form self d =
     (case d of
        PDict m \<Rightarrow> did_from_dict self m
      | PTuple xs \<Rightarrow> did_from_list_or_tuple self xs
      | PList xs \<Rightarrow> did_from_list_or_tuple self xs
      | PStr s \<Rightarrow> did_from_str self s
      | PDID x \<Rightarrow> did_from_did_object self x
      | POther \<Rightarrow> Inl (DIDError UnsupportedInputType))"

text \<open>Lines 121 and 122: \<^verbatim>\<open>if self.name.endswith('/'): self.name = self.name[:-1]\<close>.\<close>

definition strip_slash :: "did \<Rightarrow> did" where
  "strip_slash self =
     (if endswith (name self) ''/'' then self\<lparr>name := butlast (name self)\<rparr> else self)"

definition construct_did :: "did \<Rightarrow> pyval \<Rightarrow> error + did" where
  "construct_did self d =
     (case construct_form self d of
        Inl e \<Rightarrow> Inl e
      | Inr self1 \<Rightarrow> Inr (strip_slash self1))"

text \<open>
  \<^verbatim>\<open>*args\<close> is the list of positional arguments, \<^verbatim>\<open>**kwargs\<close> the keyword arguments in
  call order (Python rejects a repeated keyword before the call).
\<close>

definition parse_did_from_args :: "pyval list \<Rightarrow> (string \<times> pyval) list \<Rightarrow> error + pyval" where
  "parse_did_from_args args kwargs =
     (let num_args = length args; num_kwargs = length kwargs
      in if num_args + num_kwargs > 2 then Inl (DIDError TooManyArguments)
         else if num_args = 1
         then (let d = args ! 0
               in if num_kwargs = 1
                  then (case d of
                          PStr s \<Rightarrow>
                            (case hd kwargs of
                               (k, v) \<Rightarrow>
                                 if k = ''scope'' then Inr (PTuple [v, d])
                                 else if k = ''name'' then Inr (PTuple [d, v])
                                 else Inl (DIDError UnexpectedKeyword))
                        | _ \<Rightarrow> Inl (DIDError InvalidPositionalType))
                  else Inr d)
         else if num_args = 0
         then Inr (dict_get (map_of kwargs) ''did'' (PDict (map_of kwargs)))
         else Inr (PTuple args))"

text \<open>\<^verbatim>\<open>__init__\<close>: the result is the constructed object, or the exception raised.\<close>

definition DID_init :: "pyval list \<Rightarrow> (string \<times> pyval) list \<Rightarrow> error + did" where
  "DID_init args kwargs =
     (let self = \<lparr>scope = '''', name = ''''\<rparr>
      in case parse_did_from_args args kwargs of
           Inl e \<Rightarrow> Inl e
         | Inr d \<Rightarrow>
             (case construct_did self d of
                Inl e \<Rightarrow> Inl e
              | Inr self1 \<Rightarrow>
                  if \<not> is_valid_format self1 then Inl (DIDError InvalidFormat)
                  else Inr self1))"

definition DID_str :: "did \<Rightarrow> string" where
  "DID_str self =
     (if has_scope self \<and> has_name self then scope self @ [SCOPE_SEPARATOR] @ name self
      else if has_scope self then scope self
      else name self)"

text \<open>
  \<^verbatim>\<open>__eq__\<close>: a \<^verbatim>\<open>DIDError\<close> of the conversion is caught and gives \<^verbatim>\<open>False\<close>; any other
  exception leaves the method.
\<close>

definition DID_eq :: "did \<Rightarrow> pyval \<Rightarrow> error + bool" where
  "DID_eq self other =
     (case other of
        PStr s \<Rightarrow> Inr (DID_str self = s)
      | PDID x \<Rightarrow> Inr (scope self = scope x \<and> name self = name x)
      | _ \<Rightarrow>
          (case DID_init [other] [] of
             Inl (DIDError r) \<Rightarrow> Inr False
           | Inl NotStr \<Rightarrow> Inl NotStr
           | Inr x \<Rightarrow> Inr (scope self = scope x \<and> name self = name x)))"

definition DID_ne :: "did \<Rightarrow> pyval \<Rightarrow> error + bool" where
  "DID_ne self other = (case DID_eq self other of Inl e \<Rightarrow> Inl e | Inr b \<Rightarrow> Inr (\<not> b))"

text \<open>
  \<^verbatim>\<open>__hash__\<close>. Python's \<^verbatim>\<open>hash\<close> on strings is a parameter: it is some function of the
  string's content, fixed within a process.
\<close>

definition DID_hash :: "(string \<Rightarrow> int) \<Rightarrow> did \<Rightarrow> int" where
  "DID_hash hash self = hash (DID_str self)"


section \<open>Facts about the string operations and the methods\<close>

lemma str_split_not_Nil: "str_split sep s \<noteq> []"
  by (induction s) (auto split: list.splits)

lemma hd_str_split: "hd (str_split sep s) = takeWhile (\<lambda>c. c \<noteq> sep) s"
  by (induction s) (auto split: list.splits simp: str_split_not_Nil)

lemma str_split_chars: "p \<in> set (str_split sep s) \<Longrightarrow> set p \<subseteq> set s"
proof (induction s arbitrary: p)
  case Nil
  then show ?case by simp
next
  case (Cons c cs)
  show ?case
  proof (cases "c = sep")
    case True
    with Cons show ?thesis by auto
  next
    case False
    obtain q qs where q: "str_split sep cs = q # qs"
      using str_split_not_Nil [of sep cs] by (cases "str_split sep cs") auto
    with False Cons.prems have "p = c # q \<or> p \<in> set qs" by simp
    moreover have "set q \<subseteq> set cs" using Cons.IH [of q] q by simp
    moreover have "p \<in> set qs \<Longrightarrow> set p \<subseteq> set cs" using Cons.IH [of p] q by simp
    ultimately show ?thesis by auto
  qed
qed

lemma str_join_chars: "set (str_join sep ps) \<subseteq> set sep \<union> (\<Union>p\<in>set ps. set p)"
  by (induction sep ps rule: str_join.induct) auto

lemma str_split_once_absent: "sep \<notin> set s \<Longrightarrow> str_split_once sep s = [s]"
  by (simp add: str_split_once_def)

lemma dropWhile_first_sep:
  "sep \<notin> set a \<Longrightarrow> dropWhile (\<lambda>c. c \<noteq> sep) (a @ sep # b) = sep # b"
  by (induction a) auto

lemma takeWhile_first_sep:
  "sep \<notin> set a \<Longrightarrow> takeWhile (\<lambda>c. c \<noteq> sep) (a @ sep # b) = a"
  by (induction a) auto

lemma str_split_once_present:
  "sep \<notin> set a \<Longrightarrow> str_split_once sep (a @ sep # b) = [a, b]"
  by (simp add: str_split_once_def takeWhile_first_sep dropWhile_first_sep)

lemma first_sep_decomp:
  "sep \<in> set s \<Longrightarrow> \<exists>a b. s = a @ sep # b \<and> sep \<notin> set a"
  using split_list_first [of sep s] by blast

lemma first_sep_unique:
  assumes "sep \<notin> set a" and "sep \<notin> set a'" and "a @ sep # b = a' @ sep # b'"
  shows "a = a' \<and> b = b'"
proof -
  have "takeWhile (\<lambda>c. c \<noteq> sep) (a @ sep # b) = a"
    using assms(1) by (rule takeWhile_first_sep)
  moreover have "takeWhile (\<lambda>c. c \<noteq> sep) (a' @ sep # b') = a'"
    using assms(2) by (rule takeWhile_first_sep)
  ultimately have "a = a'" using assms(3) by simp
  with assms(3) show ?thesis by simp
qed

lemma is_valid_format_iff:
  "is_valid_format d \<longleftrightarrow> SCOPE_SEPARATOR \<notin> set (scope d) \<and> SCOPE_SEPARATOR \<notin> set (name d)"
  by (simp add: is_valid_format_def str_count_def count_list_0_iff)

lemma endswith_slash: "endswith s ''/'' \<longleftrightarrow> s \<noteq> [] \<and> last s = CHR ''/''"
proof (cases s rule: rev_cases)
  case Nil
  then show ?thesis by (simp add: endswith_def)
next
  case (snoc ys y)
  then show ?thesis by (simp add: endswith_def)
qed

lemma update_implicit_scope_name: "name (update_implicit_scope self) = name self"
  by (simp add: update_implicit_scope_def Let_def)

lemma update_implicit_scope_eq:
  "update_implicit_scope self =
     (if hd (str_split IMPLICIT_SCOPE_SEPARATOR (name self)) = ''user''
         \<or> hd (str_split IMPLICIT_SCOPE_SEPARATOR (name self)) = ''group''
      then self\<lparr>scope := str_join ''.'' (take 2 (str_split IMPLICIT_SCOPE_SEPARATOR (name self)))\<rparr>
      else self)"
  by (simp add: update_implicit_scope_def Let_def IMPLICIT_SCOPE_TO_LEN_def IMPLICIT_SCOPE_SEPARATOR_def)

lemma implicit_scope_chars:
  "set (str_join ''.'' (take n (str_split sep nm))) \<subseteq> insert CHR ''.'' (set nm)"
proof -
  have "set (str_join ''.'' (take n (str_split sep nm)))
          \<subseteq> set ''.'' \<union> (\<Union>p\<in>set (take n (str_split sep nm)). set p)"
    by (rule str_join_chars)
  moreover have "(\<Union>p\<in>set (take n (str_split sep nm)). set p) \<subseteq> set nm"
    using str_split_chars [of _ sep nm] set_take_subset [of n "str_split sep nm"] by blast
  ultimately show ?thesis by auto
qed

lemma parse_single: "parse_did_from_args [v] [] = Inr v"
  by (simp add: parse_did_from_args_def)

lemma parse_none: "parse_did_from_args [] [] = Inr (PDict Map.empty)"
  by (simp add: parse_did_from_args_def dict_get_def)

lemma did_from_str_nosep:
  assumes "SCOPE_SEPARATOR \<notin> set s"
  shows "did_from_str self s =
           (if scope (update_implicit_scope (self\<lparr>name := s\<rparr>)) = []
            then Inl (DIDError AmbiguousIdentifier)
            else Inr (update_implicit_scope (self\<lparr>name := s\<rparr>)))"
  using assms by (simp add: did_from_str_def str_split_once_absent has_scope_def Let_def)

lemma did_from_str_sep:
  assumes "SCOPE_SEPARATOR \<notin> set a"
  shows "did_from_str self (a @ SCOPE_SEPARATOR # b) = Inr (self\<lparr>scope := a, name := b\<rparr>)"
  using assms by (simp add: did_from_str_def str_split_once_present)

lemma strip_slash_scope: "scope (strip_slash d) = scope d"
  by (simp add: strip_slash_def)

lemma strip_slash_name:
  "name (strip_slash d) = (if endswith (name d) ''/'' then butlast (name d) else name d)"
  by (simp add: strip_slash_def)

lemma strip_slash_valid: "is_valid_format (strip_slash d) = is_valid_format d"
proof (cases "endswith (name d) ''/''")
  case True
  then have "name d = butlast (name d) @ ''/''"
    by (simp add: endswith_slash) (metis append_butlast_last_id)
  then have "set (name d) = insert CHR ''/'' (set (butlast (name d)))"
    by (metis Un_insert_right list.simps(15) set_append sup_bot.right_neutral empty_set)
  with True show ?thesis
    by (simp add: is_valid_format_iff strip_slash_def SCOPE_SEPARATOR_def)
next
  case False
  then show ?thesis by (simp add: strip_slash_def)
qed

lemma DID_init_single:
  "DID_init [v] [] =
     (case construct_form \<lparr>scope = [], name = []\<rparr> v of
        Inl e \<Rightarrow> Inl e
      | Inr d \<Rightarrow> if is_valid_format d then Inr (strip_slash d) else Inl (DIDError InvalidFormat))"
  by (simp add: DID_init_def parse_single construct_did_def strip_slash_valid split: sum.splits)

lemma DID_init_valid:
  assumes "DID_init args kwargs = Inr d"
  shows "is_valid_format d"
  using assms by (auto simp: DID_init_def Let_def split: sum.splits if_splits)

lemma did_from_dict_no_DIDError: "did_from_dict self m \<noteq> Inl (DIDError r)"
  by (simp add: did_from_dict_def as_str_def Let_def split: sum.splits pyval.splits)

lemma update_implicit_scope_valid:
  assumes "SCOPE_SEPARATOR \<notin> set (scope self)" and "SCOPE_SEPARATOR \<notin> set (name self)"
  shows "is_valid_format (update_implicit_scope self)"
proof -
  have "set (str_join ''.'' (take 2 (str_split IMPLICIT_SCOPE_SEPARATOR (name self))))
          \<subseteq> insert CHR ''.'' (set (name self))"
    by (rule implicit_scope_chars)
  then have "SCOPE_SEPARATOR \<notin> set (str_join ''.'' (take 2 (str_split IMPLICIT_SCOPE_SEPARATOR (name self))))"
    using assms(2) by (auto simp: SCOPE_SEPARATOR_def)
  then show ?thesis
    using assms by (simp add: update_implicit_scope_eq is_valid_format_iff)
qed

lemma DID_init_str_nosep:
  assumes "SCOPE_SEPARATOR \<notin> set s"
  shows "DID_init [PStr s] [] =
           (if scope (update_implicit_scope \<lparr>scope = [], name = s\<rparr>) = []
            then Inl (DIDError AmbiguousIdentifier)
            else Inr (strip_slash (update_implicit_scope \<lparr>scope = [], name = s\<rparr>)))"
proof -
  have "is_valid_format (update_implicit_scope \<lparr>scope = [], name = s\<rparr>)"
    using assms by (simp add: update_implicit_scope_valid)
  then show ?thesis
    using assms by (simp add: DID_init_single construct_form_def did_from_str_nosep)
qed

lemma DID_init_str_sep:
  assumes "SCOPE_SEPARATOR \<notin> set a"
  shows "DID_init [PStr (a @ SCOPE_SEPARATOR # b)] [] =
           (if SCOPE_SEPARATOR \<in> set b then Inl (DIDError InvalidFormat)
            else Inr (strip_slash \<lparr>scope = a, name = b\<rparr>))"
  using assms by (simp add: DID_init_single construct_form_def did_from_str_sep is_valid_format_iff)

lemma str_split_nosep: "sep \<notin> set s \<Longrightarrow> str_split sep s = [s]"
  by (induction s) auto

lemma length_str_split: "length (str_split sep s) = Suc (count_list s sep)"
proof (induction s)
  case Nil
  then show ?case by simp
next
  case (Cons c cs)
  then show ?case by (cases "str_split sep cs") auto
qed

lemma str_join_split: "str_join [sep] (str_split sep s) = s"
proof (induction s)
  case Nil
  then show ?case by simp
next
  case (Cons c cs)
  obtain q qs where q: "str_split sep cs = q # qs"
    using str_split_not_Nil [of sep cs] by (cases "str_split sep cs") auto
  show ?case
  proof (cases "c = sep")
    case True
    with Cons q show ?thesis by simp
  next
    case False
    with Cons q show ?thesis by (cases qs) auto
  qed
qed

lemma take_2: "2 \<le> length xs \<Longrightarrow> take 2 xs = [xs ! 0, xs ! 1]"
  by (cases xs; cases "tl xs") (auto simp: numeral_2_eq_2)

lemma construct_form_DID:
  "construct_form \<lparr>scope = [], name = []\<rparr> (PDID d) = Inr d"
proof -
  have "construct_form \<lparr>scope = [], name = []\<rparr> (PDID d) = Inr \<lparr>scope = scope d, name = name d\<rparr>"
    by (simp add: construct_form_def did_from_did_object_def)
  also have "\<lparr>scope = scope d, name = name d\<rparr> = d" by simp
  finally show ?thesis .
qed

lemma DID_init_DID:
  assumes "is_valid_format d"
  shows "DID_init [PDID d] [] = Inr (strip_slash d)"
  using assms by (simp add: DID_init_single construct_form_DID)

lemma strip_slash_id: "strip_slash d = d \<longleftrightarrow> \<not> endswith (name d) ''/''"
proof (cases "endswith (name d) ''/''")
  case True
  then have "name d \<noteq> []" by (simp add: endswith_slash)
  then have "length (butlast (name d)) \<noteq> length (name d)" by (cases "name d") simp_all
  then have "butlast (name d) \<noteq> name d" by metis
  then have "name (strip_slash d) \<noteq> name d" using True by (simp add: strip_slash_name)
  then have "strip_slash d \<noteq> d" by metis
  with True show ?thesis by simp
next
  case False
  then show ?thesis by (simp add: strip_slash_def)
qed

lemma DID_init_pair:
  "DID_init [PTuple [PStr a, PStr b]] [] =
     (if is_valid_format \<lparr>scope = a, name = b\<rparr> then Inr (strip_slash \<lparr>scope = a, name = b\<rparr>)
      else Inl (DIDError InvalidFormat))"
  by (simp add: DID_init_single construct_form_def did_from_list_or_tuple_def as_str_def)

lemma DID_str_inj:
  assumes v1: "is_valid_format d1" and v2: "is_valid_format d2"
    and s: "DID_str d1 = DID_str d2" and h: "has_scope d1 = has_scope d2"
  shows "scope d1 = scope d2 \<and> name d1 = name d2"
proof (cases "has_scope d1")
  case False
  with h s show ?thesis by (simp add: DID_str_def has_scope_def)
next
  case True
  note sc = True
  with h have sc2: "has_scope d2" by simp
  from v1 v2 have n: "SCOPE_SEPARATOR \<notin> set (scope d1)" "SCOPE_SEPARATOR \<notin> set (scope d2)"
    by (simp_all add: is_valid_format_iff)
  show ?thesis
  proof (cases "has_name d1")
    case True
    show ?thesis
    proof (cases "has_name d2")
      case True
      with \<open>has_name d1\<close> sc sc2 s
      have "scope d1 @ SCOPE_SEPARATOR # name d1 = scope d2 @ SCOPE_SEPARATOR # name d2"
        by (simp add: DID_str_def)
      then show ?thesis by (rule first_sep_unique [OF n])
    next
      case False
      with \<open>has_name d1\<close> sc sc2 s
      have "scope d2 = scope d1 @ SCOPE_SEPARATOR # name d1"
        by (simp add: DID_str_def)
      then have "SCOPE_SEPARATOR \<in> set (scope d2)" by simp
      with n show ?thesis by simp
    qed
  next
    case False
    show ?thesis
    proof (cases "has_name d2")
      case True
      with \<open>\<not> has_name d1\<close> sc sc2 s
      have "scope d1 = scope d2 @ SCOPE_SEPARATOR # name d2"
        by (simp add: DID_str_def)
      then have "SCOPE_SEPARATOR \<in> set (scope d1)" by simp
      with n show ?thesis by simp
    next
      case F2: False
      with False sc sc2 s show ?thesis by (simp add: DID_str_def has_name_def)
    qed
  qed
qed

lemma recognized_length:
  assumes "scope (update_implicit_scope \<lparr>scope = [], name = s\<rparr>) \<noteq> []"
  shows "4 \<le> length s"
proof -
  from assms have "takeWhile (\<lambda>c. c \<noteq> IMPLICIT_SCOPE_SEPARATOR) s = ''user''
      \<or> takeWhile (\<lambda>c. c \<noteq> IMPLICIT_SCOPE_SEPARATOR) s = ''group''"
    by (auto simp: update_implicit_scope_eq hd_str_split split: if_splits)
  then have "4 \<le> length (takeWhile (\<lambda>c. c \<noteq> IMPLICIT_SCOPE_SEPARATOR) s)" by auto
  moreover have "length (takeWhile (\<lambda>c. c \<noteq> IMPLICIT_SCOPE_SEPARATOR) s) \<le> length s"
    by (rule length_takeWhile_le)
  ultimately show ?thesis by simp
qed

lemma roundtrip_both:
  assumes v: "is_valid_format d" and sc: "has_scope d" and nm: "has_name d"
  shows "DID_init [PStr (DID_str d)] [] = Inr (strip_slash d)"
proof -
  from v have n: "SCOPE_SEPARATOR \<notin> set (scope d)" "SCOPE_SEPARATOR \<notin> set (name d)"
    by (simp_all add: is_valid_format_iff)
  have s: "DID_str d = scope d @ SCOPE_SEPARATOR # name d"
    using sc nm by (simp add: DID_str_def)
  have "\<lparr>scope = scope d, name = name d\<rparr> = d" by simp
  then have "DID_init [PStr (scope d @ SCOPE_SEPARATOR # name d)] [] = Inr (strip_slash d)"
    using DID_init_str_sep [OF n(1), of "name d"] n(2) by metis
  with s show ?thesis by simp
qed

lemma roundtrip_scope_only:
  assumes v: "is_valid_format d" and sc: "has_scope d" and nm: "\<not> has_name d"
  shows "DID_init [PStr (DID_str d)] [] \<noteq> Inr d"
proof
  assume r: "DID_init [PStr (DID_str d)] [] = Inr d"
  from v have n: "SCOPE_SEPARATOR \<notin> set (scope d)" by (simp add: is_valid_format_iff)
  have s: "DID_str d = scope d" using sc nm by (simp add: DID_str_def)
  let ?u = "update_implicit_scope \<lparr>scope = [], name = scope d\<rparr>"
  from r s DID_init_str_nosep [OF n]
  have ne: "scope ?u \<noteq> []" and e: "strip_slash ?u = d"
    by (auto split: if_splits)
  from ne have "4 \<le> length (scope d)" by (rule recognized_length)
  then have "butlast (scope d) \<noteq> []" "scope d \<noteq> []"
    by (cases "scope d"; cases "tl (scope d)"; auto)+
  then have "name (strip_slash ?u) \<noteq> []"
    by (simp add: strip_slash_name update_implicit_scope_name)
  with e nm show False by (simp add: has_name_def)
qed

lemma roundtrip_no_scope:
  assumes v: "is_valid_format d" and sc: "\<not> has_scope d"
  shows "DID_init [PStr (DID_str d)] [] \<noteq> Inr d"
proof
  assume r: "DID_init [PStr (DID_str d)] [] = Inr d"
  from v have n: "SCOPE_SEPARATOR \<notin> set (name d)" by (simp add: is_valid_format_iff)
  have s: "DID_str d = name d" using sc by (simp add: DID_str_def)
  let ?u = "update_implicit_scope \<lparr>scope = [], name = name d\<rparr>"
  from r s DID_init_str_nosep [OF n]
  have ne: "scope ?u \<noteq> []" and e: "strip_slash ?u = d"
    by (auto split: if_splits)
  from ne have "scope (strip_slash ?u) \<noteq> []" by (simp add: strip_slash_scope)
  with e sc show False by (simp add: has_scope_def)
qed

section \<open>The claims\<close>

subsection \<open>C1: from the string form back to the object\<close>

text \<open>
  C1, as the claim states it, reconstructs every constructed object from its string form.
  \<^verbatim>\<open>DID()\<close> is constructed and renders as \<^verbatim>\<open>''\<close>, from which \<^verbatim>\<open>DID('')\<close> raises the
  \<^verbatim>\<open>DIDError\<close> of line 134. \<^verbatim>\<open>DID(('a', 'b//'))\<close> has the name \<^verbatim>\<open>'b/'\<close> and renders as
  \<^verbatim>\<open>'a:b/'\<close>, from which \<^verbatim>\<open>DID('a:b/')\<close> has the name \<^verbatim>\<open>'b'\<close>: an object that is not equal.
\<close>

theorem C1_counterexample:
  "DID_init [] [] = Inr \<lparr>scope = '''', name = ''''\<rparr>
   \<and> DID_str \<lparr>scope = '''', name = ''''\<rparr> = ''''
   \<and> DID_init [PStr ''''] [] = Inl (DIDError AmbiguousIdentifier)
   \<and> DID_init [PTuple [PStr ''a'', PStr ''b//'']] [] = Inr \<lparr>scope = ''a'', name = ''b/''\<rparr>
   \<and> DID_str \<lparr>scope = ''a'', name = ''b/''\<rparr> = ''a:b/''
   \<and> DID_init [PStr ''a:b/''] [] = Inr \<lparr>scope = ''a'', name = ''b''\<rparr>
   \<and> DID_eq \<lparr>scope = ''a'', name = ''b''\<rparr> (PDID \<lparr>scope = ''a'', name = ''b/''\<rparr>) = Inr False"
proof -
  have 1: "DID_init [] [] = Inr \<lparr>scope = '''', name = ''''\<rparr>"
    by (simp add: DID_init_def parse_none construct_did_def construct_form_def did_from_dict_def
        dict_get_def as_str_def has_scope_def update_implicit_scope_eq IMPLICIT_SCOPE_SEPARATOR_def
        strip_slash_def endswith_slash is_valid_format_iff)
  have 2: "DID_str \<lparr>scope = '''', name = ''''\<rparr> = ''''"
    by (simp add: DID_str_def has_scope_def)
  have n: "SCOPE_SEPARATOR \<notin> set ''''" by simp
  have 3: "DID_init [PStr ''''] [] = Inl (DIDError AmbiguousIdentifier)"
    using DID_init_str_nosep [OF n] by (simp add: update_implicit_scope_eq IMPLICIT_SCOPE_SEPARATOR_def)
  have 4: "DID_init [PTuple [PStr ''a'', PStr ''b//'']] [] = Inr \<lparr>scope = ''a'', name = ''b/''\<rparr>"
    by (simp add: DID_init_pair is_valid_format_iff SCOPE_SEPARATOR_def strip_slash_def endswith_slash)
  have 5: "DID_str \<lparr>scope = ''a'', name = ''b/''\<rparr> = ''a:b/''"
    by (simp add: DID_str_def has_scope_def has_name_def SCOPE_SEPARATOR_def)
  have a: "SCOPE_SEPARATOR \<notin> set ''a''" by (simp add: SCOPE_SEPARATOR_def)
  have 6: "DID_init [PStr ''a:b/''] [] = Inr \<lparr>scope = ''a'', name = ''b''\<rparr>"
    using DID_init_str_sep [OF a, of "''b/''"]
    by (simp add: SCOPE_SEPARATOR_def strip_slash_def endswith_slash)
  have 7: "DID_eq \<lparr>scope = ''a'', name = ''b''\<rparr> (PDID \<lparr>scope = ''a'', name = ''b/''\<rparr>) = Inr False"
    by (simp add: DID_eq_def)
  show ?thesis using 1 2 3 4 5 6 7 by simp
qed

text \<open>
  C1, amended. For a constructed object \<^verbatim>\<open>d\<close>, \<^verbatim>\<open>DID(str(d))\<close> succeeds with an object
  identical to \<^verbatim>\<open>d\<close> exactly when \<^verbatim>\<open>d\<close> has a non-empty scope and a non-empty name that
  does not end in \<^verbatim>\<open>'/'\<close>; the result then compares equal to \<^verbatim>\<open>d\<close>. An object with an
  empty scope or an empty name renders without separator, and the string path then raises
  or resolves a scope from that string; a name ending in \<^verbatim>\<open>'/'\<close> loses the slash.
\<close>

theorem C1_round_trip:
  "DID_init args kwargs = Inr d \<longrightarrow>
     (DID_init [PStr (DID_str d)] [] = Inr d
        \<longleftrightarrow> has_scope d \<and> has_name d \<and> \<not> endswith (name d) ''/'')
     \<and> (has_scope d \<and> has_name d \<and> \<not> endswith (name d) ''/''
          \<longrightarrow> (\<exists>d'. DID_init [PStr (DID_str d)] [] = Inr d' \<and> DID_eq d' (PDID d) = Inr True))"
proof
  assume "DID_init args kwargs = Inr d"
  then have v: "is_valid_format d" by (rule DID_init_valid)
  have iff: "DID_init [PStr (DID_str d)] [] = Inr d
        \<longleftrightarrow> has_scope d \<and> has_name d \<and> \<not> endswith (name d) ''/''"
  proof (cases "has_scope d")
    case False
    with roundtrip_no_scope [OF v] show ?thesis by simp
  next
    case True
    show ?thesis
    proof (cases "has_name d")
      case False
      with True roundtrip_scope_only [OF v] show ?thesis by simp
    next
      case nm: True
      with True roundtrip_both [OF v] strip_slash_id [of d] show ?thesis by simp
    qed
  qed
  then show "(DID_init [PStr (DID_str d)] [] = Inr d
        \<longleftrightarrow> has_scope d \<and> has_name d \<and> \<not> endswith (name d) ''/'')
     \<and> (has_scope d \<and> has_name d \<and> \<not> endswith (name d) ''/''
          \<longrightarrow> (\<exists>d'. DID_init [PStr (DID_str d)] [] = Inr d' \<and> DID_eq d' (PDID d) = Inr True))"
    by (auto simp: DID_eq_def)
qed

theorem C1_round_trip_witness:
  "DID_init [PStr ''user.jdoe.dataset''] [] = Inr \<lparr>scope = ''user.jdoe'', name = ''user.jdoe.dataset''\<rparr>
   \<and> DID_str \<lparr>scope = ''user.jdoe'', name = ''user.jdoe.dataset''\<rparr> = ''user.jdoe:user.jdoe.dataset''
   \<and> has_scope \<lparr>scope = ''user.jdoe'', name = ''user.jdoe.dataset''\<rparr>
   \<and> has_name \<lparr>scope = ''user.jdoe'', name = ''user.jdoe.dataset''\<rparr>
   \<and> \<not> endswith ''user.jdoe.dataset'' ''/''
   \<and> DID_init [PStr ''user.jdoe:user.jdoe.dataset''] []
        = Inr \<lparr>scope = ''user.jdoe'', name = ''user.jdoe.dataset''\<rparr>"
proof -
  have s: "SCOPE_SEPARATOR \<notin> set ''user.jdoe.dataset''" by (simp add: SCOPE_SEPARATOR_def)
  have u: "update_implicit_scope \<lparr>scope = '''', name = ''user.jdoe.dataset''\<rparr>
             = \<lparr>scope = ''user.jdoe'', name = ''user.jdoe.dataset''\<rparr>"
    by (simp add: update_implicit_scope_eq IMPLICIT_SCOPE_SEPARATOR_def)
  have i: "DID_init [PStr ''user.jdoe.dataset''] []
        = Inr \<lparr>scope = ''user.jdoe'', name = ''user.jdoe.dataset''\<rparr>"
    using DID_init_str_nosep [OF s] by (simp add: u strip_slash_def endswith_slash)
  have r: "DID_str \<lparr>scope = ''user.jdoe'', name = ''user.jdoe.dataset''\<rparr> = ''user.jdoe:user.jdoe.dataset''"
    by (simp add: DID_str_def has_scope_def has_name_def SCOPE_SEPARATOR_def)
  have h: "has_scope \<lparr>scope = ''user.jdoe'', name = ''user.jdoe.dataset''\<rparr>"
    "has_name \<lparr>scope = ''user.jdoe'', name = ''user.jdoe.dataset''\<rparr>"
    "\<not> endswith ''user.jdoe.dataset'' ''/''"
    by (simp_all add: has_scope_def has_name_def endswith_slash)
  show ?thesis
    using C1_round_trip [of "[PStr ''user.jdoe.dataset'']" "[]"
        "\<lparr>scope = ''user.jdoe'', name = ''user.jdoe.dataset''\<rparr>"] i r h
    by simp
qed

subsection \<open>C2: equality of two objects\<close>

text \<open>
  C2, as the claim states it, makes two objects equal as soon as their string forms are.
  \<^verbatim>\<open>DID(('a', ''))\<close> and \<^verbatim>\<open>DID(('', 'a'))\<close> are both constructed and both render as \<^verbatim>\<open>'a'\<close>;
  \<^verbatim>\<open>__eq__\<close> compares scope with scope and name with name, and they differ.
\<close>

theorem C2_counterexample:
  "DID_init [PTuple [PStr ''a'', PStr '''']] [] = Inr \<lparr>scope = ''a'', name = ''''\<rparr>
   \<and> DID_init [PTuple [PStr '''', PStr ''a'']] [] = Inr \<lparr>scope = '''', name = ''a''\<rparr>
   \<and> DID_str \<lparr>scope = ''a'', name = ''''\<rparr> = ''a''
   \<and> DID_str \<lparr>scope = '''', name = ''a''\<rparr> = ''a''
   \<and> DID_eq \<lparr>scope = ''a'', name = ''''\<rparr> (PDID \<lparr>scope = '''', name = ''a''\<rparr>) = Inr False"
  by (simp add: DID_init_pair is_valid_format_iff SCOPE_SEPARATOR_def strip_slash_def endswith_slash
      DID_str_def has_scope_def has_name_def DID_eq_def)

text \<open>
  C2, amended. Two constructed objects are equal exactly when their string forms are equal
  and either both have a scope or neither has. Equal objects have equal string forms; equal
  string forms make the objects equal unless one of them has the common string as its
  scope, with an empty name, and the other has it as its name, with an empty scope.
\<close>

theorem C2_equality_and_rendering:
  "DID_init args1 kwargs1 = Inr d1 \<and> DID_init args2 kwargs2 = Inr d2 \<longrightarrow>
     DID_eq d1 (PDID d2) = Inr (DID_str d1 = DID_str d2 \<and> has_scope d1 = has_scope d2)"
proof
  assume a: "DID_init args1 kwargs1 = Inr d1 \<and> DID_init args2 kwargs2 = Inr d2"
  then have v: "is_valid_format d1" "is_valid_format d2"
    by (simp_all add: DID_init_valid [of args1 kwargs1 d1] DID_init_valid [of args2 kwargs2 d2])
  have "(scope d1 = scope d2 \<and> name d1 = name d2)
          \<longleftrightarrow> (DID_str d1 = DID_str d2 \<and> has_scope d1 = has_scope d2)"
  proof
    assume "scope d1 = scope d2 \<and> name d1 = name d2"
    then show "DID_str d1 = DID_str d2 \<and> has_scope d1 = has_scope d2"
      by (simp add: DID_str_def has_scope_def has_name_def)
  next
    assume "DID_str d1 = DID_str d2 \<and> has_scope d1 = has_scope d2"
    then show "scope d1 = scope d2 \<and> name d1 = name d2"
      using DID_str_inj [OF v] by simp
  qed
  then show "DID_eq d1 (PDID d2) = Inr (DID_str d1 = DID_str d2 \<and> has_scope d1 = has_scope d2)"
    by (simp add: DID_eq_def)
qed

theorem C2_equality_and_rendering_witness:
  "DID_init [PTuple [PStr ''a'', PStr ''b'']] [] = Inr \<lparr>scope = ''a'', name = ''b''\<rparr>
   \<and> DID_init [PTuple [PStr ''a'', PStr '''']] [] = Inr \<lparr>scope = ''a'', name = ''''\<rparr>
   \<and> DID_init [PTuple [PStr '''', PStr ''a'']] [] = Inr \<lparr>scope = '''', name = ''a''\<rparr>
   \<and> DID_eq \<lparr>scope = ''a'', name = ''b''\<rparr> (PDID \<lparr>scope = ''a'', name = ''b''\<rparr>) = Inr True
   \<and> DID_eq \<lparr>scope = ''a'', name = ''b''\<rparr> (PDID \<lparr>scope = ''a'', name = ''''\<rparr>) = Inr False
   \<and> DID_eq \<lparr>scope = ''a'', name = ''''\<rparr> (PDID \<lparr>scope = '''', name = ''a''\<rparr>) = Inr False"
proof -
  have 1: "DID_init [PTuple [PStr ''a'', PStr ''b'']] [] = Inr \<lparr>scope = ''a'', name = ''b''\<rparr>"
    by (simp add: DID_init_pair is_valid_format_iff SCOPE_SEPARATOR_def strip_slash_def endswith_slash)
  have 2: "DID_init [PTuple [PStr ''a'', PStr '''']] [] = Inr \<lparr>scope = ''a'', name = ''''\<rparr>"
    by (simp add: DID_init_pair is_valid_format_iff SCOPE_SEPARATOR_def strip_slash_def endswith_slash)
  have 3: "DID_init [PTuple [PStr '''', PStr ''a'']] [] = Inr \<lparr>scope = '''', name = ''a''\<rparr>"
    by (simp add: DID_init_pair is_valid_format_iff SCOPE_SEPARATOR_def strip_slash_def endswith_slash)
  have s: "DID_str \<lparr>scope = ''a'', name = ''b''\<rparr> = ''a:b''"
    "DID_str \<lparr>scope = ''a'', name = ''''\<rparr> = ''a''" "DID_str \<lparr>scope = '''', name = ''a''\<rparr> = ''a''"
    by (simp_all add: DID_str_def has_scope_def has_name_def SCOPE_SEPARATOR_def)
  have h: "has_scope \<lparr>scope = ''a'', name = ''''\<rparr>" "\<not> has_scope \<lparr>scope = '''', name = ''a''\<rparr>"
    "has_scope \<lparr>scope = ''a'', name = ''b''\<rparr>"
    by (simp_all add: has_scope_def)
  show ?thesis
    using C2_equality_and_rendering [of "[PTuple [PStr ''a'', PStr ''b'']]" "[]" "\<lparr>scope = ''a'', name = ''b''\<rparr>"
        "[PTuple [PStr ''a'', PStr ''b'']]" "[]" "\<lparr>scope = ''a'', name = ''b''\<rparr>"]
      C2_equality_and_rendering [of "[PTuple [PStr ''a'', PStr ''b'']]" "[]" "\<lparr>scope = ''a'', name = ''b''\<rparr>"
        "[PTuple [PStr ''a'', PStr '''']]" "[]" "\<lparr>scope = ''a'', name = ''''\<rparr>"]
      C2_equality_and_rendering [of "[PTuple [PStr ''a'', PStr '''']]" "[]" "\<lparr>scope = ''a'', name = ''''\<rparr>"
        "[PTuple [PStr '''', PStr ''a'']]" "[]" "\<lparr>scope = '''', name = ''a''\<rparr>"]
      1 2 3 s h by simp
qed

subsection \<open>C3: construction from a DID object\<close>

text \<open>
  C3, as the claim states it, makes \<^verbatim>\<open>DID(d)\<close> identical to \<^verbatim>\<open>d\<close>. The object
  \<^verbatim>\<open>d = DID(('a', 'b//'))\<close> has the name \<^verbatim>\<open>'b/'\<close>, and lines 121 and 122 run again in
  \<^verbatim>\<open>DID(d)\<close>, whose name is \<^verbatim>\<open>'b'\<close>.
\<close>

theorem C3_counterexample:
  "DID_init [PTuple [PStr ''a'', PStr ''b//'']] [] = Inr \<lparr>scope = ''a'', name = ''b/''\<rparr>
   \<and> DID_init [PDID \<lparr>scope = ''a'', name = ''b/''\<rparr>] [] = Inr \<lparr>scope = ''a'', name = ''b''\<rparr>
   \<and> name \<lparr>scope = ''a'', name = ''b''\<rparr> \<noteq> name \<lparr>scope = ''a'', name = ''b/''\<rparr>"
  by (simp add: DID_init_single construct_form_def did_from_list_or_tuple_def as_str_def
      did_from_did_object_def is_valid_format_iff SCOPE_SEPARATOR_def strip_slash_def endswith_slash)

text \<open>
  C3, amended. For a constructed object \<^verbatim>\<open>d\<close>, \<^verbatim>\<open>_did_from_did_object\<close> copies scope and
  name as they are, with no resolution, and \<^verbatim>\<open>DID(d)\<close> succeeds: it has the scope of \<^verbatim>\<open>d\<close>
  and the name of \<^verbatim>\<open>d\<close> without one trailing slash. It is identical to \<^verbatim>\<open>d\<close> exactly when
  the name of \<^verbatim>\<open>d\<close> does not end in \<^verbatim>\<open>'/'\<close>.
\<close>

theorem C3_from_did_object:
  "DID_init args kwargs = Inr d \<longrightarrow>
     did_from_did_object self d = Inr (self\<lparr>scope := scope d, name := name d\<rparr>)
     \<and> DID_init [PDID d] []
          = Inr (d\<lparr>name := if endswith (name d) ''/'' then butlast (name d) else name d\<rparr>)
     \<and> (DID_init [PDID d] [] = Inr d \<longleftrightarrow> \<not> endswith (name d) ''/'')"
proof
  assume "DID_init args kwargs = Inr d"
  then have "is_valid_format d" by (rule DID_init_valid)
  then have i: "DID_init [PDID d] [] = Inr (strip_slash d)" by (rule DID_init_DID)
  have s: "strip_slash d = d\<lparr>name := if endswith (name d) ''/'' then butlast (name d) else name d\<rparr>"
    by (simp add: strip_slash_def)
  show "did_from_did_object self d = Inr (self\<lparr>scope := scope d, name := name d\<rparr>)
     \<and> DID_init [PDID d] []
          = Inr (d\<lparr>name := if endswith (name d) ''/'' then butlast (name d) else name d\<rparr>)
     \<and> (DID_init [PDID d] [] = Inr d \<longleftrightarrow> \<not> endswith (name d) ''/'')"
    using i s strip_slash_id [of d] by (simp add: did_from_did_object_def)
qed

theorem C3_from_did_object_witness:
  "DID_init [PStr ''a:b''] [] = Inr \<lparr>scope = ''a'', name = ''b''\<rparr>
   \<and> DID_init [PDID \<lparr>scope = ''a'', name = ''b''\<rparr>] [] = Inr \<lparr>scope = ''a'', name = ''b''\<rparr>
   \<and> \<not> endswith ''b'' ''/''"
proof -
  have a: "SCOPE_SEPARATOR \<notin> set ''a''" by (simp add: SCOPE_SEPARATOR_def)
  from DID_init_str_sep [OF a, of "''b''"]
  have i: "DID_init [PStr ''a:b''] [] = Inr \<lparr>scope = ''a'', name = ''b''\<rparr>"
    by (simp add: SCOPE_SEPARATOR_def strip_slash_def endswith_slash)
  show ?thesis
    using C3_from_did_object [of "[PStr ''a:b'']" "[]" "\<lparr>scope = ''a'', name = ''b''\<rparr>"
        "\<lparr>scope = '''', name = ''''\<rparr>"] i
    by (simp add: endswith_slash)
qed

subsection \<open>C4: no separator in scope or name\<close>

text \<open>
  C4. A constructed object has no \<^verbatim>\<open>':'\<close> in its scope and none in its name. Whenever the
  arguments parse and \<^verbatim>\<open>_construct_did\<close> leaves a scope or a name with a \<^verbatim>\<open>':'\<close>, the
  constructor raises the \<^verbatim>\<open>DIDError\<close> of line 66 and returns no object.
\<close>

theorem C4_no_separator_in_fields:
  "(DID_init args kwargs = Inr d \<longrightarrow>
      SCOPE_SEPARATOR \<notin> set (scope d) \<and> SCOPE_SEPARATOR \<notin> set (name d))
   \<and> (parse_did_from_args args kwargs = Inr v
        \<and> construct_did \<lparr>scope = '''', name = ''''\<rparr> v = Inr d'
        \<and> (SCOPE_SEPARATOR \<in> set (scope d') \<or> SCOPE_SEPARATOR \<in> set (name d'))
      \<longrightarrow> DID_init args kwargs = Inl (DIDError InvalidFormat))"
proof (intro conjI impI)
  assume "DID_init args kwargs = Inr d"
  then have "is_valid_format d" by (rule DID_init_valid)
  then show "SCOPE_SEPARATOR \<notin> set (scope d)" and "SCOPE_SEPARATOR \<notin> set (name d)"
    by (simp_all add: is_valid_format_iff)
next
  assume h: "parse_did_from_args args kwargs = Inr v
        \<and> construct_did \<lparr>scope = '''', name = ''''\<rparr> v = Inr d'
        \<and> (SCOPE_SEPARATOR \<in> set (scope d') \<or> SCOPE_SEPARATOR \<in> set (name d'))"
  then have "\<not> is_valid_format d'" by (auto simp: is_valid_format_iff)
  with h show "DID_init args kwargs = Inl (DIDError InvalidFormat)"
    by (simp add: DID_init_def)
qed

theorem C4_no_separator_in_fields_witness:
  "DID_init [PStr ''a:b''] [] = Inr \<lparr>scope = ''a'', name = ''b''\<rparr>
   \<and> SCOPE_SEPARATOR \<notin> set ''a'' \<and> SCOPE_SEPARATOR \<notin> set ''b''
   \<and> parse_did_from_args [PTuple [PStr ''a:b'', PStr ''c'']] [] = Inr (PTuple [PStr ''a:b'', PStr ''c''])
   \<and> construct_did \<lparr>scope = '''', name = ''''\<rparr> (PTuple [PStr ''a:b'', PStr ''c''])
        = Inr \<lparr>scope = ''a:b'', name = ''c''\<rparr>
   \<and> SCOPE_SEPARATOR \<in> set ''a:b''
   \<and> DID_init [PTuple [PStr ''a:b'', PStr ''c'']] [] = Inl (DIDError InvalidFormat)"
proof -
  have i: "DID_init [PStr ''a:b''] [] = Inr \<lparr>scope = ''a'', name = ''b''\<rparr>"
    by (simp add: DID_init_single construct_form_def did_from_str_def str_split_once_def
        SCOPE_SEPARATOR_def is_valid_format_iff strip_slash_def endswith_slash)
  have p: "parse_did_from_args [PTuple [PStr ''a:b'', PStr ''c'']] [] = Inr (PTuple [PStr ''a:b'', PStr ''c''])"
    by (rule parse_single)
  have c: "construct_did \<lparr>scope = '''', name = ''''\<rparr> (PTuple [PStr ''a:b'', PStr ''c''])
        = Inr \<lparr>scope = ''a:b'', name = ''c''\<rparr>"
    by (simp add: construct_did_def construct_form_def did_from_list_or_tuple_def as_str_def
        strip_slash_def endswith_slash)
  have m: "SCOPE_SEPARATOR \<in> set ''a:b''" by (simp add: SCOPE_SEPARATOR_def)
  show ?thesis
    using C4_no_separator_in_fields [of "[PStr ''a:b'']" "[]" "\<lparr>scope = ''a'', name = ''b''\<rparr>"
        "PStr ''a:b''" "\<lparr>scope = ''a'', name = ''b''\<rparr>"]
      C4_no_separator_in_fields [of "[PTuple [PStr ''a:b'', PStr ''c'']]" "[]" "\<lparr>scope = ''a'', name = ''b''\<rparr>"
        "PTuple [PStr ''a:b'', PStr ''c'']" "\<lparr>scope = ''a:b'', name = ''c''\<rparr>"]
      i p c m by simp
qed

subsection \<open>C5: one trailing slash is removed from the name\<close>

text \<open>
  C5. Whatever form produced scope and name, \<^verbatim>\<open>_construct_did\<close> then removes exactly the
  last character of a name that ends in \<^verbatim>\<open>'/'\<close>, even if a \<^verbatim>\<open>'/'\<close> precedes it, and leaves
  any other name and the scope as they are. \<^verbatim>\<open>DID('a:b/')\<close> has the name \<^verbatim>\<open>'b'\<close>,
  \<^verbatim>\<open>DID('a:b//')\<close> the name \<^verbatim>\<open>'b/'\<close>.
\<close>

theorem C5_trailing_slash_once:
  "(construct_form self v = Inr d0 \<and> name d0 = n @ ''/''
      \<longrightarrow> construct_did self v = Inr (d0\<lparr>name := n\<rparr>))
   \<and> (construct_form self v = Inr d0 \<and> \<not> (\<exists>m. name d0 = m @ ''/'')
      \<longrightarrow> construct_did self v = Inr d0)
   \<and> DID_init [PStr ''a:b/''] [] = Inr \<lparr>scope = ''a'', name = ''b''\<rparr>
   \<and> DID_init [PStr ''a:b//''] [] = Inr \<lparr>scope = ''a'', name = ''b/''\<rparr>"
proof -
  have 1: "construct_form self v = Inr d0 \<and> name d0 = n @ ''/''
      \<longrightarrow> construct_did self v = Inr (d0\<lparr>name := n\<rparr>)"
    by (simp add: construct_did_def strip_slash_def endswith_slash)
  have 2: "construct_form self v = Inr d0 \<and> \<not> (\<exists>m. name d0 = m @ ''/'')
      \<longrightarrow> construct_did self v = Inr d0"
  proof
    assume h: "construct_form self v = Inr d0 \<and> \<not> (\<exists>m. name d0 = m @ ''/'')"
    have "\<not> endswith (name d0) ''/''"
    proof
      assume "endswith (name d0) ''/''"
      then have "name d0 = butlast (name d0) @ ''/''"
        by (simp add: endswith_slash) (metis append_butlast_last_id)
      with h show False by blast
    qed
    with h show "construct_did self v = Inr d0"
      by (simp add: construct_did_def strip_slash_def)
  qed
  have a: "SCOPE_SEPARATOR \<notin> set ''a''" by (simp add: SCOPE_SEPARATOR_def)
  from DID_init_str_sep [OF a, of "''b/''"]
  have 3: "DID_init [PStr ''a:b/''] [] = Inr \<lparr>scope = ''a'', name = ''b''\<rparr>"
    by (simp add: SCOPE_SEPARATOR_def strip_slash_def endswith_slash)
  from DID_init_str_sep [OF a, of "''b//''"]
  have 4: "DID_init [PStr ''a:b//''] [] = Inr \<lparr>scope = ''a'', name = ''b/''\<rparr>"
    by (simp add: SCOPE_SEPARATOR_def strip_slash_def endswith_slash)
  show ?thesis using 1 2 3 4 by blast
qed

theorem C5_trailing_slash_once_witness:
  "construct_form \<lparr>scope = '''', name = ''''\<rparr> (PTuple [PStr ''a'', PStr ''b//'']) = Inr \<lparr>scope = ''a'', name = ''b//''\<rparr>
   \<and> construct_did \<lparr>scope = '''', name = ''''\<rparr> (PTuple [PStr ''a'', PStr ''b//'']) = Inr \<lparr>scope = ''a'', name = ''b/''\<rparr>
   \<and> construct_form \<lparr>scope = '''', name = ''''\<rparr> (PDID \<lparr>scope = ''a'', name = ''b''\<rparr>) = Inr \<lparr>scope = ''a'', name = ''b''\<rparr>
   \<and> \<not> (\<exists>m. ''b'' = m @ ''/'')
   \<and> construct_did \<lparr>scope = '''', name = ''''\<rparr> (PDID \<lparr>scope = ''a'', name = ''b''\<rparr>) = Inr \<lparr>scope = ''a'', name = ''b''\<rparr>"
proof -
  have f1: "construct_form \<lparr>scope = '''', name = ''''\<rparr> (PTuple [PStr ''a'', PStr ''b//'']) = Inr \<lparr>scope = ''a'', name = ''b//''\<rparr>"
    by (simp add: construct_form_def did_from_list_or_tuple_def as_str_def)
  have f2: "construct_form \<lparr>scope = '''', name = ''''\<rparr> (PDID \<lparr>scope = ''a'', name = ''b''\<rparr>) = Inr \<lparr>scope = ''a'', name = ''b''\<rparr>"
    by (simp add: construct_form_def did_from_did_object_def)
  have n: "\<not> (\<exists>m. ''b'' = m @ ''/'')"
    by (simp add: Cons_eq_append_conv)
  show ?thesis
    using C5_trailing_slash_once [of "\<lparr>scope = '''', name = ''''\<rparr>" "PTuple [PStr ''a'', PStr ''b//'']"
        "\<lparr>scope = ''a'', name = ''b//''\<rparr>" "''b/''"]
      C5_trailing_slash_once [of "\<lparr>scope = '''', name = ''''\<rparr>" "PDID \<lparr>scope = ''a'', name = ''b''\<rparr>"
        "\<lparr>scope = ''a'', name = ''b''\<rparr>" "''b''"]
      f1 f2 n by simp
qed

subsection \<open>C6: implicit scope\<close>

text \<open>
  C6, as the claim states it, asks for a scope joined from exactly two leading segments
  whenever the first segment is \<^verbatim>\<open>user\<close> or \<^verbatim>\<open>group\<close>. The name \<^verbatim>\<open>'user'\<close> has the
  recognized first segment, for which the table gives 2, and one segment only: the slice
  \<^verbatim>\<open>did_parts[0:2]\<close> holds that one segment, and the scope is \<^verbatim>\<open>'user'\<close>, with no
  \<^verbatim>\<open>'.'\<close> in it, where a join of two segments has one.
\<close>

theorem C6_counterexample:
  "hd (str_split IMPLICIT_SCOPE_SEPARATOR ''user'') = ''user''
   \<and> IMPLICIT_SCOPE_TO_LEN ''user'' = Some 2
   \<and> length (str_split IMPLICIT_SCOPE_SEPARATOR ''user'') = 1
   \<and> update_implicit_scope \<lparr>scope = '''', name = ''user''\<rparr> = \<lparr>scope = ''user'', name = ''user''\<rparr>
   \<and> IMPLICIT_SCOPE_SEPARATOR \<notin> set (scope (update_implicit_scope \<lparr>scope = '''', name = ''user''\<rparr>))
   \<and> DID_init [PStr ''user''] [] = Inr \<lparr>scope = ''user'', name = ''user''\<rparr>"
proof -
  have u: "update_implicit_scope \<lparr>scope = '''', name = ''user''\<rparr> = \<lparr>scope = ''user'', name = ''user''\<rparr>"
    by (simp add: update_implicit_scope_eq IMPLICIT_SCOPE_SEPARATOR_def)
  have s: "SCOPE_SEPARATOR \<notin> set ''user''" by (simp add: SCOPE_SEPARATOR_def)
  have "DID_init [PStr ''user''] [] = Inr \<lparr>scope = ''user'', name = ''user''\<rparr>"
    using DID_init_str_nosep [OF s] by (simp add: u strip_slash_def endswith_slash)
  then show ?thesis
    using u by (simp add: IMPLICIT_SCOPE_SEPARATOR_def IMPLICIT_SCOPE_TO_LEN_def)
qed

text \<open>
  C6, amended. When the first segment of the name is \<^verbatim>\<open>user\<close> or \<^verbatim>\<open>group\<close>,
  \<^verbatim>\<open>_update_implicit_scope\<close> sets the scope to the \<^verbatim>\<open>'.'\<close>-join of the first two segments of
  the name: the first segment, a dot and the second segment when the name has two segments
  or more, and the whole name when it has one. The name stays as it is.
  \<^verbatim>\<open>DID('user.jdoe.dataset')\<close> has scope \<^verbatim>\<open>'user.jdoe'\<close> and name \<^verbatim>\<open>'user.jdoe.dataset'\<close>.
  With any other first segment the object is unchanged, so an empty scope stays empty.
\<close>

theorem C6_implicit_scope:
  "(hd (str_split IMPLICIT_SCOPE_SEPARATOR (name self)) = ''user''
      \<or> hd (str_split IMPLICIT_SCOPE_SEPARATOR (name self)) = ''group''
    \<longrightarrow> update_implicit_scope self
          = self\<lparr>scope := str_join ''.'' (take 2 (str_split IMPLICIT_SCOPE_SEPARATOR (name self)))\<rparr>
        \<and> name (update_implicit_scope self) = name self
        \<and> (2 \<le> length (str_split IMPLICIT_SCOPE_SEPARATOR (name self))
            \<longrightarrow> scope (update_implicit_scope self)
                  = str_split IMPLICIT_SCOPE_SEPARATOR (name self) ! 0 @ ''.''
                    @ str_split IMPLICIT_SCOPE_SEPARATOR (name self) ! 1)
        \<and> (length (str_split IMPLICIT_SCOPE_SEPARATOR (name self)) < 2
            \<longrightarrow> scope (update_implicit_scope self) = name self))
   \<and> (hd (str_split IMPLICIT_SCOPE_SEPARATOR (name self)) \<noteq> ''user''
      \<and> hd (str_split IMPLICIT_SCOPE_SEPARATOR (name self)) \<noteq> ''group''
    \<longrightarrow> update_implicit_scope self = self)
   \<and> DID_init [PStr ''user.jdoe.dataset''] []
        = Inr \<lparr>scope = ''user.jdoe'', name = ''user.jdoe.dataset''\<rparr>"
proof -
  let ?parts = "str_split IMPLICIT_SCOPE_SEPARATOR (name self)"
  have two: "str_join ''.'' (take 2 ?parts) = ?parts ! 0 @ ''.'' @ ?parts ! 1"
    if "2 \<le> length ?parts"
    using that by (simp add: take_2)
  have one: "str_join ''.'' (take 2 ?parts) = name self" if "length ?parts < 2"
  proof -
    from that have "count_list (name self) IMPLICIT_SCOPE_SEPARATOR = 0"
      by (simp add: length_str_split)
    then have "IMPLICIT_SCOPE_SEPARATOR \<notin> set (name self)"
      by (simp add: count_list_0_iff)
    then show ?thesis by (simp add: str_split_nosep)
  qed
  have s: "SCOPE_SEPARATOR \<notin> set ''user.jdoe.dataset''" by (simp add: SCOPE_SEPARATOR_def)
  have u: "update_implicit_scope \<lparr>scope = '''', name = ''user.jdoe.dataset''\<rparr>
             = \<lparr>scope = ''user.jdoe'', name = ''user.jdoe.dataset''\<rparr>"
    by (simp add: update_implicit_scope_eq IMPLICIT_SCOPE_SEPARATOR_def)
  have ex: "DID_init [PStr ''user.jdoe.dataset''] []
        = Inr \<lparr>scope = ''user.jdoe'', name = ''user.jdoe.dataset''\<rparr>"
    using DID_init_str_nosep [OF s] by (simp add: u strip_slash_def endswith_slash)
  show ?thesis
    using two one ex by (simp add: update_implicit_scope_eq)
qed

theorem C6_implicit_scope_witness:
  "hd (str_split IMPLICIT_SCOPE_SEPARATOR ''group.cms.run.x'') = ''group''
   \<and> update_implicit_scope \<lparr>scope = '''', name = ''group.cms.run.x''\<rparr>
        = \<lparr>scope = ''group.cms'', name = ''group.cms.run.x''\<rparr>
   \<and> hd (str_split IMPLICIT_SCOPE_SEPARATOR ''user'') = ''user''
   \<and> length (str_split IMPLICIT_SCOPE_SEPARATOR ''user'') < 2
   \<and> scope (update_implicit_scope \<lparr>scope = '''', name = ''user''\<rparr>) = ''user''
   \<and> hd (str_split IMPLICIT_SCOPE_SEPARATOR ''mc16.x'') \<noteq> ''user''
   \<and> hd (str_split IMPLICIT_SCOPE_SEPARATOR ''mc16.x'') \<noteq> ''group''
   \<and> update_implicit_scope \<lparr>scope = '''', name = ''mc16.x''\<rparr> = \<lparr>scope = '''', name = ''mc16.x''\<rparr>"
  using C6_implicit_scope [of "\<lparr>scope = '''', name = ''group.cms.run.x''\<rparr>"]
    C6_implicit_scope [of "\<lparr>scope = '''', name = ''user''\<rparr>"]
    C6_implicit_scope [of "\<lparr>scope = '''', name = ''mc16.x''\<rparr>"]
  by (simp add: IMPLICIT_SCOPE_SEPARATOR_def)

subsection \<open>C7: construction from a string\<close>

text \<open>
  C7. A string without \<^verbatim>\<open>':'\<close> becomes the name as a whole and implicit-scope resolution
  runs on it; \<^verbatim>\<open>DID(s)\<close> raises (the \<^verbatim>\<open>DIDError\<close> of line 134) exactly when the resolution
  leaves the scope empty, and otherwise returns the resolved object, its name without
  one trailing slash. A string with a \<^verbatim>\<open>':'\<close> is split at the first one only: what stands
  before it is the scope, all that follows is the name, further separators included
  (the format check then rejects those).
\<close>

theorem C7_string_form:
  "(SCOPE_SEPARATOR \<notin> set s \<longrightarrow>
      name (update_implicit_scope \<lparr>scope = '''', name = s\<rparr>) = s
      \<and> ((\<exists>e. DID_init [PStr s] [] = Inl e)
           \<longleftrightarrow> scope (update_implicit_scope \<lparr>scope = '''', name = s\<rparr>) = '''')
      \<and> (scope (update_implicit_scope \<lparr>scope = '''', name = s\<rparr>) = ''''
           \<longrightarrow> DID_init [PStr s] [] = Inl (DIDError AmbiguousIdentifier))
      \<and> (scope (update_implicit_scope \<lparr>scope = '''', name = s\<rparr>) \<noteq> ''''
           \<longrightarrow> DID_init [PStr s] [] = Inr (strip_slash (update_implicit_scope \<lparr>scope = '''', name = s\<rparr>))))
   \<and> (SCOPE_SEPARATOR \<notin> set a \<longrightarrow>
        did_from_str self (a @ SCOPE_SEPARATOR # b) = Inr (self\<lparr>scope := a, name := b\<rparr>)
        \<and> DID_init [PStr (a @ SCOPE_SEPARATOR # b)] [] =
            (if SCOPE_SEPARATOR \<in> set b then Inl (DIDError InvalidFormat)
             else Inr (strip_slash \<lparr>scope = a, name = b\<rparr>)))
   \<and> (SCOPE_SEPARATOR \<in> set s \<longrightarrow>
        (\<exists>a b. s = a @ SCOPE_SEPARATOR # b \<and> SCOPE_SEPARATOR \<notin> set a
           \<and> did_from_str self s = Inr (self\<lparr>scope := a, name := b\<rparr>)))"
proof (intro conjI impI)
  assume s: "SCOPE_SEPARATOR \<notin> set s"
  note init = DID_init_str_nosep [OF s]
  show "name (update_implicit_scope \<lparr>scope = '''', name = s\<rparr>) = s"
    by (simp add: update_implicit_scope_name)
  show "(\<exists>e. DID_init [PStr s] [] = Inl e)
           \<longleftrightarrow> scope (update_implicit_scope \<lparr>scope = '''', name = s\<rparr>) = ''''"
    using init by simp
  show "DID_init [PStr s] [] = Inl (DIDError AmbiguousIdentifier)"
    if "scope (update_implicit_scope \<lparr>scope = '''', name = s\<rparr>) = ''''"
    using init that by simp
  show "DID_init [PStr s] [] = Inr (strip_slash (update_implicit_scope \<lparr>scope = '''', name = s\<rparr>))"
    if "scope (update_implicit_scope \<lparr>scope = '''', name = s\<rparr>) \<noteq> ''''"
    using init that by simp
next
  assume a: "SCOPE_SEPARATOR \<notin> set a"
  show "did_from_str self (a @ SCOPE_SEPARATOR # b) = Inr (self\<lparr>scope := a, name := b\<rparr>)"
    using a by (rule did_from_str_sep)
  show "DID_init [PStr (a @ SCOPE_SEPARATOR # b)] [] =
            (if SCOPE_SEPARATOR \<in> set b then Inl (DIDError InvalidFormat)
             else Inr (strip_slash \<lparr>scope = a, name = b\<rparr>))"
    using a by (rule DID_init_str_sep)
next
  assume "SCOPE_SEPARATOR \<in> set s"
  then obtain a b where d: "s = a @ SCOPE_SEPARATOR # b" "SCOPE_SEPARATOR \<notin> set a"
    using first_sep_decomp [of SCOPE_SEPARATOR s] by blast
  then have "did_from_str self s = Inr (self\<lparr>scope := a, name := b\<rparr>)"
    by (simp add: did_from_str_sep)
  with d show "\<exists>a b. s = a @ SCOPE_SEPARATOR # b \<and> SCOPE_SEPARATOR \<notin> set a
           \<and> did_from_str self s = Inr (self\<lparr>scope := a, name := b\<rparr>)"
    by blast
qed

theorem C7_string_form_witness:
  "SCOPE_SEPARATOR \<notin> set ''plainname''
   \<and> scope (update_implicit_scope \<lparr>scope = '''', name = ''plainname''\<rparr>) = ''''
   \<and> DID_init [PStr ''plainname''] [] = Inl (DIDError AmbiguousIdentifier)
   \<and> SCOPE_SEPARATOR \<notin> set ''group.x/''
   \<and> scope (update_implicit_scope \<lparr>scope = '''', name = ''group.x/''\<rparr>) \<noteq> ''''
   \<and> DID_init [PStr ''group.x/''] [] = Inr \<lparr>scope = ''group.x/'', name = ''group.x''\<rparr>
   \<and> SCOPE_SEPARATOR \<notin> set ''a''
   \<and> SCOPE_SEPARATOR \<in> set ''a:b:c''
   \<and> did_from_str \<lparr>scope = '''', name = ''''\<rparr> ''a:b:c'' = Inr \<lparr>scope = ''a'', name = ''b:c''\<rparr>
   \<and> DID_init [PStr ''a:b:c''] [] = Inl (DIDError InvalidFormat)"
proof -
  have 1: "SCOPE_SEPARATOR \<notin> set ''plainname''" by (simp add: SCOPE_SEPARATOR_def)
  have 2: "update_implicit_scope \<lparr>scope = '''', name = ''plainname''\<rparr> = \<lparr>scope = '''', name = ''plainname''\<rparr>"
    by (simp add: update_implicit_scope_eq IMPLICIT_SCOPE_SEPARATOR_def)
  have 3: "SCOPE_SEPARATOR \<notin> set ''group.x/''" by (simp add: SCOPE_SEPARATOR_def)
  have 4: "update_implicit_scope \<lparr>scope = '''', name = ''group.x/''\<rparr> = \<lparr>scope = ''group.x/'', name = ''group.x/''\<rparr>"
    by (simp add: update_implicit_scope_eq IMPLICIT_SCOPE_SEPARATOR_def)
  have 5: "strip_slash \<lparr>scope = ''group.x/'', name = ''group.x/''\<rparr> = \<lparr>scope = ''group.x/'', name = ''group.x''\<rparr>"
    by (simp add: strip_slash_def endswith_slash)
  have 6: "SCOPE_SEPARATOR \<notin> set ''a''" by (simp add: SCOPE_SEPARATOR_def)
  have 7: "''a:b:c'' = ''a'' @ SCOPE_SEPARATOR # ''b:c''" by (simp add: SCOPE_SEPARATOR_def)
  have 8: "SCOPE_SEPARATOR \<in> set ''b:c''" by (simp add: SCOPE_SEPARATOR_def)
  have 9: "SCOPE_SEPARATOR \<in> set ''a:b:c''" by (simp add: SCOPE_SEPARATOR_def)
  show ?thesis
    using C7_string_form [of "''plainname''" "''a''" "\<lparr>scope = '''', name = ''''\<rparr>" "''b:c''"]
      C7_string_form [of "''group.x/''" "''a''" "\<lparr>scope = '''', name = ''''\<rparr>" "''b:c''"]
      C7_string_form [of "''a:b:c''" "''a''" "\<lparr>scope = '''', name = ''''\<rparr>" "''b:c''"]
      1 2 3 4 5 6 8 9 unfolding 7 [symmetric] by simp
qed

subsection \<open>C8: construction from a dictionary\<close>

text \<open>
  C8, as the claim states it, lets the resolution depend on the presence of the key
  \<^verbatim>\<open>'scope'\<close>. The guard of line 146 is \<^verbatim>\<open>not self.has_scope()\<close>, the emptiness of the value
  read: in \<^verbatim>\<open>DID({'scope': '', 'name': 'user.jdoe.x'})\<close> the key is present and the scope is
  resolved from the name all the same.
\<close>

theorem C8_counterexample:
  "[''scope'' \<mapsto> PStr '''', ''name'' \<mapsto> PStr ''user.jdoe.x''] ''scope'' = Some (PStr '''')
   \<and> did_from_dict \<lparr>scope = '''', name = ''''\<rparr> [''scope'' \<mapsto> PStr '''', ''name'' \<mapsto> PStr ''user.jdoe.x'']
        = Inr \<lparr>scope = ''user.jdoe'', name = ''user.jdoe.x''\<rparr>
   \<and> DID_init [PDict [''scope'' \<mapsto> PStr '''', ''name'' \<mapsto> PStr ''user.jdoe.x'']] []
        = Inr \<lparr>scope = ''user.jdoe'', name = ''user.jdoe.x''\<rparr>"
proof -
  have d: "did_from_dict \<lparr>scope = '''', name = ''''\<rparr> [''scope'' \<mapsto> PStr '''', ''name'' \<mapsto> PStr ''user.jdoe.x'']
        = Inr \<lparr>scope = ''user.jdoe'', name = ''user.jdoe.x''\<rparr>"
    by (simp add: did_from_dict_def dict_get_def as_str_def has_scope_def
        update_implicit_scope_eq IMPLICIT_SCOPE_SEPARATOR_def)
  have v: "is_valid_format \<lparr>scope = ''user.jdoe'', name = ''user.jdoe.x''\<rparr>"
    by (simp add: is_valid_format_iff SCOPE_SEPARATOR_def)
  have s: "strip_slash \<lparr>scope = ''user.jdoe'', name = ''user.jdoe.x''\<rparr>
             = \<lparr>scope = ''user.jdoe'', name = ''user.jdoe.x''\<rparr>"
    by (simp add: strip_slash_def endswith_slash)
  have "DID_init [PDict [''scope'' \<mapsto> PStr '''', ''name'' \<mapsto> PStr ''user.jdoe.x'']] []
        = Inr \<lparr>scope = ''user.jdoe'', name = ''user.jdoe.x''\<rparr>"
    by (simp add: DID_init_single construct_form_def d v s)
  with d show ?thesis by simp
qed

text \<open>
  C8, amended. For a dictionary whose \<^verbatim>\<open>'scope'\<close> and \<^verbatim>\<open>'name'\<close> entries, where present, are
  strings, scope and name are read from these keys, \<^verbatim>\<open>''\<close> standing in for an absent key,
  and implicit-scope resolution runs on the name exactly when the scope read is empty:
  when the key \<^verbatim>\<open>'scope'\<close> is absent or holds \<^verbatim>\<open>''\<close>, and not when it holds a non-empty
  string.
\<close>

theorem C8_mapping_form:
  "(m ''scope'' = None \<and> sc = '''' \<or> m ''scope'' = Some (PStr sc))
   \<and> (m ''name'' = None \<and> nm = '''' \<or> m ''name'' = Some (PStr nm))
   \<longrightarrow> did_from_dict self m =
         Inr (if sc = '''' then update_implicit_scope (self\<lparr>scope := '''', name := nm\<rparr>)
              else self\<lparr>scope := sc, name := nm\<rparr>)"
  by (auto simp: did_from_dict_def dict_get_def as_str_def has_scope_def)

theorem C8_mapping_form_witness:
  "did_from_dict \<lparr>scope = '''', name = ''''\<rparr> [''name'' \<mapsto> PStr ''user.jdoe.x'']
      = Inr \<lparr>scope = ''user.jdoe'', name = ''user.jdoe.x''\<rparr>
   \<and> did_from_dict \<lparr>scope = '''', name = ''''\<rparr> [''scope'' \<mapsto> PStr '''', ''name'' \<mapsto> PStr ''user.jdoe.x'']
      = Inr \<lparr>scope = ''user.jdoe'', name = ''user.jdoe.x''\<rparr>
   \<and> did_from_dict \<lparr>scope = '''', name = ''''\<rparr> [''scope'' \<mapsto> PStr ''s'', ''name'' \<mapsto> PStr ''user.jdoe.x'']
      = Inr \<lparr>scope = ''s'', name = ''user.jdoe.x''\<rparr>
   \<and> did_from_dict \<lparr>scope = '''', name = ''''\<rparr> [''scope'' \<mapsto> PStr ''s'']
      = Inr \<lparr>scope = ''s'', name = ''''\<rparr>"
proof -
  have u: "update_implicit_scope \<lparr>scope = '''', name = ''user.jdoe.x''\<rparr>
             = \<lparr>scope = ''user.jdoe'', name = ''user.jdoe.x''\<rparr>"
    by (simp add: update_implicit_scope_eq IMPLICIT_SCOPE_SEPARATOR_def)
  show ?thesis
    using C8_mapping_form [of "[''name'' \<mapsto> PStr ''user.jdoe.x'']" "''''" "''user.jdoe.x''"
        "\<lparr>scope = '''', name = ''''\<rparr>"]
      C8_mapping_form [of "[''scope'' \<mapsto> PStr '''', ''name'' \<mapsto> PStr ''user.jdoe.x'']" "''''" "''user.jdoe.x''"
        "\<lparr>scope = '''', name = ''''\<rparr>"]
      C8_mapping_form [of "[''scope'' \<mapsto> PStr ''s'', ''name'' \<mapsto> PStr ''user.jdoe.x'']" "''s''" "''user.jdoe.x''"
        "\<lparr>scope = '''', name = ''''\<rparr>"]
      C8_mapping_form [of "[''scope'' \<mapsto> PStr ''s'']" "''s''" "''''"
        "\<lparr>scope = '''', name = ''''\<rparr>"]
    by (simp add: u)
qed

subsection \<open>C9: comparison with a string, and the hash\<close>

text \<open>
  C9. An object compares equal to a string exactly when the string is the object's string
  form, and its hash is the hash of its string form, whatever function \<^verbatim>\<open>hash\<close> is on
  strings. \<^verbatim>\<open>DID('a:b')\<close> is constructed, has the hash of \<^verbatim>\<open>'a:b'\<close> and equals \<^verbatim>\<open>'a:b'\<close>.
\<close>

theorem C9_eq_str_and_hash:
  "DID_eq d (PStr s) = Inr (s = DID_str d)
   \<and> DID_hash hash d = hash (DID_str d)
   \<and> DID_init [PStr ''a:b''] [] = Inr \<lparr>scope = ''a'', name = ''b''\<rparr>
   \<and> DID_hash hash \<lparr>scope = ''a'', name = ''b''\<rparr> = hash ''a:b''
   \<and> DID_eq \<lparr>scope = ''a'', name = ''b''\<rparr> (PStr ''a:b'') = Inr True"
proof -
  have 1: "DID_eq d (PStr s) = Inr (s = DID_str d)" by (auto simp: DID_eq_def)
  have 2: "DID_hash hash d = hash (DID_str d)" by (simp add: DID_hash_def)
  have "SCOPE_SEPARATOR \<notin> set ''a''" by (simp add: SCOPE_SEPARATOR_def)
  from DID_init_str_sep [OF this, of "''b''"]
  have 3: "DID_init [PStr ''a:b''] [] = Inr \<lparr>scope = ''a'', name = ''b''\<rparr>"
    by (simp add: SCOPE_SEPARATOR_def strip_slash_def endswith_slash)
  have 4: "DID_str \<lparr>scope = ''a'', name = ''b''\<rparr> = ''a:b''"
    by (simp add: DID_str_def has_scope_def has_name_def SCOPE_SEPARATOR_def)
  show ?thesis using 1 2 3 4 by (simp add: DID_eq_def DID_hash_def)
qed

theorem C9_eq_str_and_hash_witness:
  "DID_eq \<lparr>scope = ''a'', name = ''b''\<rparr> (PStr ''a:c'') = Inr False
   \<and> DID_hash (\<lambda>s. int (length s)) \<lparr>scope = ''a'', name = ''b''\<rparr> = 3"
proof -
  have "DID_str \<lparr>scope = ''a'', name = ''b''\<rparr> = ''a:b''"
    by (simp add: DID_str_def has_scope_def has_name_def SCOPE_SEPARATOR_def)
  then show ?thesis
    using C9_eq_str_and_hash [of "\<lparr>scope = ''a'', name = ''b''\<rparr>" "''a:c''" "\<lambda>s. int (length s)"]
    by simp
qed

subsection \<open>C10: construction without arguments\<close>

text \<open>
  C10. \<^verbatim>\<open>DID()\<close>, a call with no positional and no keyword argument, passes the empty
  keyword dictionary on as the input, as \<^verbatim>\<open>DID({})\<close> does; both succeed and give the object
  with scope \<^verbatim>\<open>''\<close> and name \<^verbatim>\<open>''\<close>, whose string form is \<^verbatim>\<open>''\<close>. The dictionary path
  raises no \<^verbatim>\<open>DIDError\<close> at all, so it rejects no empty field.
\<close>

theorem C10_empty_construction:
  "DID_init [] [] = Inr \<lparr>scope = '''', name = ''''\<rparr>
   \<and> parse_did_from_args [] [] = Inr (PDict Map.empty)
   \<and> DID_init [PDict Map.empty] [] = Inr \<lparr>scope = '''', name = ''''\<rparr>
   \<and> DID_str \<lparr>scope = '''', name = ''''\<rparr> = ''''
   \<and> did_from_dict self m \<noteq> Inl (DIDError r)"
proof -
  have a: "construct_form \<lparr>scope = [], name = []\<rparr> (PDict Map.empty) = Inr \<lparr>scope = [], name = []\<rparr>"
    by (simp add: construct_form_def did_from_dict_def dict_get_def as_str_def has_scope_def
        update_implicit_scope_eq IMPLICIT_SCOPE_SEPARATOR_def)
  have v: "is_valid_format \<lparr>scope = [], name = []\<rparr>"
    by (simp add: is_valid_format_iff)
  have s: "strip_slash \<lparr>scope = [], name = []\<rparr> = \<lparr>scope = [], name = []\<rparr>"
    by (simp add: strip_slash_def endswith_slash)
  have 1: "DID_init [PDict Map.empty] [] = Inr \<lparr>scope = '''', name = ''''\<rparr>"
    by (simp add: DID_init_single a v s)
  have 2: "DID_init [] [] = Inr \<lparr>scope = '''', name = ''''\<rparr>"
    by (simp add: DID_init_def parse_none construct_did_def a v s)
  have 3: "DID_str \<lparr>scope = '''', name = ''''\<rparr> = ''''"
    by (simp add: DID_str_def has_scope_def)
  show ?thesis using 1 2 3 parse_none did_from_dict_no_DIDError by simp
qed

theorem C10_empty_construction_witness:
  "DID_init [] [] = Inr \<lparr>scope = '''', name = ''''\<rparr>
   \<and> did_from_dict \<lparr>scope = '''', name = ''''\<rparr> Map.empty \<noteq> Inl (DIDError InvalidFormat)"
  using C10_empty_construction [of "\<lparr>scope = '''', name = ''''\<rparr>" Map.empty InvalidFormat] by simp

end
